theory Spec2Isabelle
  imports Main
begin

section \<open>Go primitives used by the package\<close>

text \<open>
  A Go \<^verbatim>\<open>string\<close> is a sequence of bytes, here a \<^typ>\<open>string\<close>. A Go \<^verbatim>\<open>int\<close> is a 64-bit
  two's complement integer, here an \<^typ>\<open>int\<close>; the only subtraction of the package that can
  leave the 64-bit range is the one in \<^verbatim>\<open>setPreviousDay\<close>, where the wrap-around is written out.
  A Go \<^verbatim>\<open>error\<close> built by \<^verbatim>\<open>fmt.Errorf\<close> is its message; a function returning
  \<^verbatim>\<open>(T, error)\<close> returns a pair whose second component is \<open>None\<close> for \<^verbatim>\<open>nil\<close>.
\<close>

type_synonym error = string

definition wrap64 :: "int \<Rightarrow> int" where
  "wrap64 x = (x + 2 ^ 63) mod 2 ^ 64 - 2 ^ 63"

text \<open>Go's \<^verbatim>\<open>/\<close> and \<^verbatim>\<open>%\<close> on integers truncate towards zero.\<close>

definition go_quo :: "int \<Rightarrow> int \<Rightarrow> int" where
  "go_quo a b = sgn a * sgn b * (\<bar>a\<bar> div \<bar>b\<bar>)"

definition go_rem :: "int \<Rightarrow> int \<Rightarrow> int" where
  "go_rem a b = a - b * go_quo a b"

subsection \<open>strconv.Atoi\<close>

text \<open>
  \<^verbatim>\<open>strconv.Atoi\<close> accepts an optional sign followed by one or more decimal digits and
  nothing else (base 10: no prefix, no underscore). The digits are read from the left into
  an unsigned 64-bit number: the first byte that is not a digit gives a syntax error and
  the value 0, a number that leaves the unsigned range before that gives a range error.
  A number outside the signed 64-bit range gives a range error and the nearest bound.
\<close>

datatype NumError = ErrSyntax | ErrRange

definition is_digit :: "char \<Rightarrow> bool" where
  "is_digit c = (48 \<le> (of_char c :: nat) \<and> (of_char c :: nat) \<le> 57)"

fun scan_uint :: "nat \<Rightarrow> string \<Rightarrow> nat \<times> NumError option" where
  "scan_uint n [] = (n, None)"
| "scan_uint n (c # cs) =
     (if \<not> is_digit c then (0, Some ErrSyntax)
      else if n \<ge> (2 ^ 64 - 1) div 10 + 1 then (2 ^ 64 - 1, Some ErrRange)
      else if n * 10 + ((of_char c :: nat) - 48) > 2 ^ 64 - 1 then (2 ^ 64 - 1, Some ErrRange)
      else scan_uint (n * 10 + ((of_char c :: nat) - 48)) cs)"

definition Atoi :: "string \<Rightarrow> int \<times> NumError option" where
  "Atoi s =
     (let neg = (s \<noteq> [] \<and> hd s = CHR ''-'');
          ds = (if s \<noteq> [] \<and> (hd s = CHR ''-'' \<or> hd s = CHR ''+'') then tl s else s)
      in if ds = [] then (0, Some ErrSyntax)
         else (case scan_uint 0 ds of (un, err) \<Rightarrow>
           if err = Some ErrSyntax then (0, Some ErrSyntax)
           else if \<not> neg \<and> un \<ge> 2 ^ 63 then (2 ^ 63 - 1, Some ErrRange)
           else if neg \<and> un > 2 ^ 63 then (- (2 ^ 63), Some ErrRange)
           else (if neg then - int un else int un, err)))"

subsection \<open>fmt.Sprintf verbs\<close>

definition digit_char :: "nat \<Rightarrow> char" where
  "digit_char n = char_of (48 + n)"

fun dec_nat :: "nat \<Rightarrow> string" where
  "dec_nat n = (if n < 10 then [digit_char n] else dec_nat (n div 10) @ [digit_char (n mod 10)])"

declare dec_nat.simps [simp del]

text \<open>The verb \<^verbatim>\<open>%d\<close>.\<close>

definition fmt_d :: "int \<Rightarrow> string" where
  "fmt_d i = (if i < 0 then CHR ''-'' # dec_nat (nat (- i)) else dec_nat (nat i))"

text \<open>
  The verb \<^verbatim>\<open>%02d\<close>: zero padding to width 2, where the sign of a negative number takes
  one of the two places.
\<close>

definition fmt_02d :: "int \<Rightarrow> string" where
  "fmt_02d i =
     (if i < 0 then CHR ''-'' # dec_nat (nat (- i))
      else replicate (2 - length (dec_nat (nat i))) (CHR ''0'') @ dec_nat (nat i))"

subsection \<open>strings.Split, strings.Join\<close>

text \<open>
  \<^verbatim>\<open>strings.Split(s, sep)\<close> for a separator of one byte: the pieces between the
  separators, one more piece than there are separators, so the empty text gives one empty
  piece.
\<close>

fun Split :: "string \<Rightarrow> char \<Rightarrow> string list" where
  "Split [] c = [[]]"
| "Split (x # xs) c =
     (if x = c then [] # Split xs c
      else (case Split xs c of [] \<Rightarrow> [[x]] | p # ps \<Rightarrow> (x # p) # ps))"

fun Join :: "string list \<Rightarrow> char \<Rightarrow> string" where
  "Join [] c = []"
| "Join [p] c = p"
| "Join (p # q # ps) c = p @ c # Join (q # ps) c"

subsection \<open>strings.ToLower\<close>











section \<open>Parsing a time of day\<close>

text \<open>\<^verbatim>\<open>ParseMinutesSinceMidnight(v1, v2 string) (int, error)\<close>.\<close>

definition ParseMinutesSinceMidnight :: "string \<Rightarrow> string \<Rightarrow> int \<times> error option" where
  "ParseMinutesSinceMidnight v1 v2 =
     (case Atoi v1 of (hours, err) \<Rightarrow>
        if err \<noteq> None \<or> (hours < 0 \<or> hours > 24) then (0, Some ''invalid hours value'')
        else (case Atoi v2 of (minutes, err') \<Rightarrow>
          if err' \<noteq> None \<or> (minutes < 0 \<or> minutes > 59) then (0, Some ''invalid minutes value'')
          else if hours = 24 \<and> minutes \<noteq> 0 then (0, Some ''invalid value'')
          else (hours * 60 + minutes, None)))"

text \<open>
  What the claims call "the text parses as an integer in a range": \<^verbatim>\<open>strconv.Atoi\<close>
  returns no error and the value lies in the range.
\<close>

definition parses_in :: "string \<Rightarrow> int \<Rightarrow> int \<Rightarrow> bool" where
  "parses_in v lo hi = (snd (Atoi v) = None \<and> lo \<le> fst (Atoi v) \<and> fst (Atoi v) \<le> hi)"

section \<open>The data model\<close>

text \<open>
  \<^verbatim>\<open>TimeInWeek\<close> is a struct of two \<^verbatim>\<open>int\<close> fields. \<^verbatim>\<open>OpeningHours\<close> is a struct of two
  pointers to \<^verbatim>\<open>TimeInWeek\<close>, either of which may be \<^verbatim>\<open>nil\<close> (\<open>None\<close>). The type parameter
  is what a pointer is taken to be. The parser returns pointers to values it has just built
  and the formatter only reads through its pointers, so both are given on the values the
  pointers refer to (\<open>TimeInWeek OpeningHours\<close>). The two expansion functions write through
  the pointers of their argument, so they are given on addresses (\<open>addr OpeningHours\<close>) and
  a store.
\<close>

record TimeInWeek =
  Weekday :: int
  MinutesSinceMidnight :: int

record 'p OpeningHours =
  Open :: "'p option"
  Close :: "'p option"

section \<open>Formatting\<close>

text \<open>The \<^verbatim>\<open>Sprintf("W%dT%02d:%02d:00", ...)\<close> of \<^verbatim>\<open>OpeningHours.String\<close>.\<close>

definition fmtTimeInWeek :: "TimeInWeek \<Rightarrow> string" where
  "fmtTimeInWeek t =
     ''W'' @ fmt_d (Weekday t) @ ''T'' @ fmt_02d (go_quo (MinutesSinceMidnight t) 60)
       @ '':'' @ fmt_02d (go_rem (MinutesSinceMidnight t) 60) @ '':00''"

text \<open>\<^verbatim>\<open>func (oh OpeningHours) String() string\<close>.\<close>

definition OpeningHours_String :: "TimeInWeek OpeningHours \<Rightarrow> string" where
  "OpeningHours_String oh =
     (case Open oh of None \<Rightarrow> [] | Some t \<Rightarrow> fmtTimeInWeek t) @ ''/''
       @ (case Close oh of None \<Rightarrow> [] | Some t \<Rightarrow> fmtTimeInWeek t)"

definition OpeningHoursSliceToString :: "TimeInWeek OpeningHours list \<Rightarrow> string" where
  "OpeningHoursSliceToString ohs = Join (map OpeningHours_String ohs) (CHR '','')"

section \<open>Parsing\<close>

text \<open>
  \<^verbatim>\<open>regexp.MustCompile(`^W(\d)T(\d{2}):(\d{2}):\d{2}$`).FindStringSubmatch(v)\<close>: the whole
  text must be the eleven bytes of the pattern (\<^verbatim>\<open>\d\<close> is an ASCII digit, \<^verbatim>\<open>$\<close> the end of
  the text); the result is the text and its three groups, or \<^verbatim>\<open>nil\<close> (\<open>[]\<close>).
\<close>

definition FindStringSubmatch :: "string \<Rightarrow> string list" where
  "FindStringSubmatch v =
     (if length v = 11 \<and> v ! 0 = CHR ''W'' \<and> is_digit (v ! 1) \<and> v ! 2 = CHR ''T''
         \<and> is_digit (v ! 3) \<and> is_digit (v ! 4) \<and> v ! 5 = CHR '':''
         \<and> is_digit (v ! 6) \<and> is_digit (v ! 7) \<and> v ! 8 = CHR '':''
         \<and> is_digit (v ! 9) \<and> is_digit (v ! 10)
      then [v, [v ! 1], [v ! 3, v ! 4], [v ! 6, v ! 7]] else [])"

definition parseWeekDay :: "string \<Rightarrow> int" where
  "parseWeekDay v = (case Atoi v of (i, err) \<Rightarrow> if err \<noteq> None \<or> (i < 1 \<or> i > 7) then 0 else i)"

definition parseTimeInWeek :: "string \<Rightarrow> TimeInWeek option \<times> error option" where
  "parseTimeInWeek v =
     (if v = [] then (None, None)
      else let matches = FindStringSubmatch v
        in if length matches < 2 then (None, Some (''invalid value `'' @ v @ ''`''))
           else let weekday = parseWeekDay (matches ! 1)
             in if weekday = 0
                then (None, Some (''invalid workday in `'' @ v
                        @ ''`: expected to be between 1 (monday) and 7 (sunday)''))
                else (case ParseMinutesSinceMidnight (matches ! 2) (matches ! 3) of
                        (minutesSinceMidnight, err) \<Rightarrow>
                          (case err of
                             Some e \<Rightarrow> (None, Some (''invalid time in `'' @ v @ ''`: '' @ e))
                           | None \<Rightarrow> (Some \<lparr>Weekday = weekday,
                                             MinutesSinceMidnight = minutesSinceMidnight\<rparr>, None))))"

text \<open>
  The loop of \<^verbatim>\<open>ParseOpeningHours\<close> over the comma-separated pieces, with the slice
  \<^verbatim>\<open>ohs\<close> built so far. An error return gives the \<^verbatim>\<open>nil\<close> slice (\<open>None\<close>) and the error.
\<close>

fun parse_segments ::
  "string list \<Rightarrow> TimeInWeek OpeningHours list
     \<Rightarrow> TimeInWeek OpeningHours list option \<times> error option" where
  "parse_segments [] ohs = (Some ohs, None)"
| "parse_segments (str # strs) ohs =
     (if str = [] then parse_segments strs ohs
      else let parts = Split str (CHR ''/'')
        in if length parts \<noteq> 2
           then (None, Some (''invalid opening hours string `'' @ str @ ''`''))
           else (case parseTimeInWeek (parts ! 0) of (openingHours, err) \<Rightarrow>
             (case err of
                Some e \<Rightarrow> (None, Some (''invalid opening hours: '' @ e))
              | None \<Rightarrow>
                 (case parseTimeInWeek (parts ! 1) of (closingHours, err') \<Rightarrow>
                   (case err' of
                      Some e \<Rightarrow> (None, Some (''invalid closing hours: '' @ e))
                    | None \<Rightarrow>
                       parse_segments strs
                         (ohs @ [\<lparr>Open = openingHours, Close = closingHours\<rparr>]))))))"

definition ParseOpeningHours ::
  "string \<Rightarrow> TimeInWeek OpeningHours list option \<times> error option" where
  "ParseOpeningHours v = parse_segments (Split v (CHR '','')) []"


text \<open>The data-model invariant of a point in the week.\<close>

definition valid_time :: "TimeInWeek \<Rightarrow> bool" where
  "valid_time t = (1 \<le> Weekday t \<and> Weekday t \<le> 7
                    \<and> 0 \<le> MinutesSinceMidnight t \<and> MinutesSinceMidnight t \<le> 1440)"

definition valid_interval :: "TimeInWeek OpeningHours \<Rightarrow> bool" where
  "valid_interval oh =
     ((case Open oh of None \<Rightarrow> True | Some t \<Rightarrow> valid_time t)
      \<and> (case Close oh of None \<Rightarrow> True | Some t \<Rightarrow> valid_time t))"

section \<open>Expanding intervals into days\<close>

text \<open>
  \<^verbatim>\<open>GetHumanReadableTimes\<close> and \<^verbatim>\<open>GetOCPIOpeningTimes\<close> take a slice of \<^verbatim>\<open>OpeningHours\<close>.
  The loop variable \<^verbatim>\<open>oh\<close> of \<^verbatim>\<open>for _, oh := range ohs\<close> is a copy of the struct, that is of
  its two pointers; \<^verbatim>\<open>setPreviousDay(&oh.Close.Weekday)\<close>, \<^verbatim>\<open>setNextDay(&oh.Open.Weekday)\<close>
  and the assignments to \<^verbatim>\<open>oh.Close.MinutesSinceMidnight\<close> write to the \<^verbatim>\<open>TimeInWeek\<close> values
  the pointers refer to. A pointer is an address, the \<^verbatim>\<open>TimeInWeek\<close> values live in a store,
  and both functions return the store they leave behind. Reading through a \<^verbatim>\<open>nil\<close> pointer
  panics. The loops over the weekdays may run forever: a function that does not return
  has the value \<open>None\<close>.
\<close>

type_synonym addr = nat

type_synonym store = "addr \<Rightarrow> TimeInWeek"

datatype panic = NilPointerDereference

record TimeRange =
  TimeRange_Open :: string
  TimeRange_Close :: string

type_synonym times = "string \<rightharpoonup> TimeRange list"

definition getWeekDay :: "int \<Rightarrow> string" where
  "getWeekDay weekday =
     (if weekday = 1 then ''monday''
      else if weekday = 2 then ''tuesday''
      else if weekday = 3 then ''wednesday''
      else if weekday = 4 then ''thursday''
      else if weekday = 5 then ''friday''
      else if weekday = 6 then ''saturday''
      else if weekday = 7 then ''sunday''
      else [])"

definition minutesSinceMidnightToTime :: "int \<Rightarrow> string" where
  "minutesSinceMidnightToTime minutesSinceMidnight =
     fmt_02d (go_quo minutesSinceMidnight 60) @ '':'' @ fmt_02d (go_rem minutesSinceMidnight 60)"

text \<open>\<^verbatim>\<open>*w = *w%7 + 1\<close> and \<^verbatim>\<open>*w = *w - 1; if *w < 1 { *w = 7 }\<close>, on the value pointed to.\<close>

definition setNextDay :: "int \<Rightarrow> int" where
  "setNextDay w = go_rem w 7 + 1"

definition setPreviousDay :: "int \<Rightarrow> int" where
  "setPreviousDay w = (let w' = wrap64 (w - 1) in if w' < 1 then 7 else w')"

text \<open>A call \<^verbatim>\<open>f(&p.Weekday)\<close> for a pointer \<^verbatim>\<open>p\<close> to a \<^verbatim>\<open>TimeInWeek\<close>.\<close>

definition update_Weekday :: "addr \<Rightarrow> (int \<Rightarrow> int) \<Rightarrow> store \<Rightarrow> store" where
  "update_Weekday p f \<sigma> = \<sigma>(p := (\<sigma> p)\<lparr>Weekday := f (Weekday (\<sigma> p))\<rparr>)"

definition addTimeToWeek :: "times \<Rightarrow> string \<Rightarrow> string \<Rightarrow> string \<Rightarrow> times" where
  "addTimeToWeek ts weekday openingTime closingTime =
     ts(weekday \<mapsto> (case ts weekday of None \<Rightarrow> [] | Some rs \<Rightarrow> rs)
                       @ [\<lparr>TimeRange_Open = openingTime, TimeRange_Close = closingTime\<rparr>])"

subsection \<open>GetHumanReadableTimes\<close>

text \<open>
  The first statement of the loop body: a closing time of 0 minutes becomes 24:00 of the
  day before.
\<close>

definition closeAtMidnight :: "addr \<Rightarrow> store \<Rightarrow> store" where
  "closeAtMidnight pc \<sigma> =
     (if MinutesSinceMidnight (\<sigma> pc) = 0
      then (let \<sigma>' = update_Weekday pc setPreviousDay \<sigma>
            in \<sigma>'(pc := (\<sigma>' pc)\<lparr>MinutesSinceMidnight := 1440\<rparr>))
      else \<sigma>)"

text \<open>The inner loop \<^verbatim>\<open>for oh.Open.Weekday != oh.Close.Weekday { ... }\<close>.\<close>

partial_function (option) fullDays ::
  "addr \<Rightarrow> addr \<Rightarrow> times \<Rightarrow> store \<Rightarrow> (times \<times> store) option" where
  "fullDays po pc openingTimes \<sigma> =
     (if Weekday (\<sigma> po) \<noteq> Weekday (\<sigma> pc)
      then fullDays po pc
             (addTimeToWeek openingTimes (getWeekDay (Weekday (\<sigma> po))) ''00:00'' ''24:00'')
             (update_Weekday po setNextDay \<sigma>)
      else Some (openingTimes, \<sigma>))"

text \<open>The body of the loop over the slice, for one \<^verbatim>\<open>oh\<close>.\<close>

definition expandInterval ::
  "addr OpeningHours \<Rightarrow> times \<Rightarrow> store \<Rightarrow> (panic + times \<times> store) option" where
  "expandInterval oh openingTimes \<sigma> =
     (case Close oh of
        None \<Rightarrow> Some (Inl NilPointerDereference)
      | Some pc \<Rightarrow>
         (let \<sigma>1 = closeAtMidnight pc \<sigma>
          in case Open oh of
               None \<Rightarrow> Some (Inl NilPointerDereference)
             | Some po \<Rightarrow>
                if Weekday (\<sigma>1 po) = Weekday (\<sigma>1 pc)
                then Some (Inr (addTimeToWeek openingTimes (getWeekDay (Weekday (\<sigma>1 po)))
                                  (minutesSinceMidnightToTime (MinutesSinceMidnight (\<sigma>1 po)))
                                  (minutesSinceMidnightToTime (MinutesSinceMidnight (\<sigma>1 pc))),
                                \<sigma>1))
                else (case fullDays po pc
                             (addTimeToWeek openingTimes (getWeekDay (Weekday (\<sigma>1 po)))
                                (minutesSinceMidnightToTime (MinutesSinceMidnight (\<sigma>1 po)))
                                ''24:00'')
                             (update_Weekday po setNextDay \<sigma>1) of
                        None \<Rightarrow> None
                      | Some (ts, \<sigma>2) \<Rightarrow>
                         Some (Inr (addTimeToWeek ts (getWeekDay (Weekday (\<sigma>2 pc))) ''00:00''
                                      (minutesSinceMidnightToTime (MinutesSinceMidnight (\<sigma>2 pc))),
                                    \<sigma>2)))))"

fun expandIntervals ::
  "addr OpeningHours list \<Rightarrow> times \<Rightarrow> store \<Rightarrow> (panic + times \<times> store) option" where
  "expandIntervals [] openingTimes \<sigma> = Some (Inr (openingTimes, \<sigma>))"
| "expandIntervals (oh # ohs) openingTimes \<sigma> =
     (case expandInterval oh openingTimes \<sigma> of
        None \<Rightarrow> None
      | Some (Inl p) \<Rightarrow> Some (Inl p)
      | Some (Inr (ts, \<sigma>')) \<Rightarrow> expandIntervals ohs ts \<sigma>')"

text \<open>
  \<^verbatim>\<open>func GetHumanReadableTimes(ohs []OpeningHours) map[string][]TimeRange\<close>: the map
  returned (\<open>None\<close> is the \<^verbatim>\<open>nil\<close> map of the empty input) and the store after the call.
\<close>

definition GetHumanReadableTimes ::
  "addr OpeningHours list \<Rightarrow> store \<Rightarrow> (panic + times option \<times> store) option" where
  "GetHumanReadableTimes ohs \<sigma> =
     (if length ohs = 0 then Some (Inr (None, \<sigma>))
      else (case expandIntervals ohs Map.empty \<sigma> of
              None \<Rightarrow> None
            | Some (Inl p) \<Rightarrow> Some (Inl p)
            | Some (Inr (ts, \<sigma>')) \<Rightarrow> Some (Inr (Some ts, \<sigma>'))))"

subsection \<open>GetOCPIOpeningTimes\<close>

record OCPIRegularHours =
  OCPI_Weekday :: int
  PeriodBegin :: string
  PeriodEnd :: string

record OCPIOpeningTimes =
  TwentyFourSeven :: bool
  RegularHours :: "OCPIRegularHours list option"

fun isTwentyFourSeven_loop :: "addr OpeningHours list \<Rightarrow> store \<Rightarrow> bool" where
  "isTwentyFourSeven_loop [] \<sigma> = True"
| "isTwentyFourSeven_loop (oh # ohs) \<sigma> =
     (case Open oh of
        None \<Rightarrow> False
      | Some po \<Rightarrow>
         (case Close oh of
            None \<Rightarrow> False
          | Some pc \<Rightarrow>
             if Weekday (\<sigma> po) \<noteq> 1 \<or> Weekday (\<sigma> pc) \<noteq> 7 then False
             else if MinutesSinceMidnight (\<sigma> po) \<noteq> 0 \<or> MinutesSinceMidnight (\<sigma> pc) \<noteq> 1440
               then False
             else isTwentyFourSeven_loop ohs \<sigma>))"

definition isTwentyFourSeven :: "addr OpeningHours list \<Rightarrow> store \<Rightarrow> bool" where
  "isTwentyFourSeven ohs \<sigma> = (if length ohs = 0 then False else isTwentyFourSeven_loop ohs \<sigma>)"

text \<open>The \<^verbatim>\<open>switch oh.Close.MinutesSinceMidnight\<close> at the head of the loop body.\<close>

definition ocpiMidnight :: "addr \<Rightarrow> store \<Rightarrow> store" where
  "ocpiMidnight pc \<sigma> =
     (if MinutesSinceMidnight (\<sigma> pc) = 0 then update_Weekday pc setPreviousDay \<sigma>
      else if MinutesSinceMidnight (\<sigma> pc) = 1440
        then \<sigma>(pc := (\<sigma> pc)\<lparr>MinutesSinceMidnight := 0\<rparr>)
      else \<sigma>)"

partial_function (option) ocpiFullDays ::
  "addr \<Rightarrow> addr \<Rightarrow> OCPIRegularHours list \<Rightarrow> store \<Rightarrow> (OCPIRegularHours list \<times> store) option"
  where
  "ocpiFullDays po pc regularHours \<sigma> =
     (if Weekday (\<sigma> po) \<noteq> Weekday (\<sigma> pc)
      then ocpiFullDays po pc
             (regularHours @ [\<lparr>OCPI_Weekday = Weekday (\<sigma> po), PeriodBegin = ''00:00'',
                               PeriodEnd = ''00:00''\<rparr>])
             (update_Weekday po setNextDay \<sigma>)
      else Some (regularHours, \<sigma>))"

definition ocpiInterval ::
  "addr OpeningHours \<Rightarrow> OCPIRegularHours list \<Rightarrow> store
     \<Rightarrow> (panic + OCPIRegularHours list \<times> store) option" where
  "ocpiInterval oh regularHours \<sigma> =
     (case Close oh of
        None \<Rightarrow> Some (Inl NilPointerDereference)
      | Some pc \<Rightarrow>
         (let \<sigma>1 = ocpiMidnight pc \<sigma>
          in case Open oh of
               None \<Rightarrow> Some (Inl NilPointerDereference)
             | Some po \<Rightarrow>
                if Weekday (\<sigma>1 po) = Weekday (\<sigma>1 pc)
                then Some (Inr (regularHours @
                                  [\<lparr>OCPI_Weekday = Weekday (\<sigma>1 po),
                                    PeriodBegin = minutesSinceMidnightToTime (MinutesSinceMidnight (\<sigma>1 po)),
                                    PeriodEnd = minutesSinceMidnightToTime (MinutesSinceMidnight (\<sigma>1 pc))\<rparr>],
                                \<sigma>1))
                else (case ocpiFullDays po pc
                             (regularHours @
                                [\<lparr>OCPI_Weekday = Weekday (\<sigma>1 po),
                                  PeriodBegin = minutesSinceMidnightToTime (MinutesSinceMidnight (\<sigma>1 po)),
                                  PeriodEnd = ''00:00''\<rparr>])
                             (update_Weekday po setNextDay \<sigma>1) of
                        None \<Rightarrow> None
                      | Some (rh, \<sigma>2) \<Rightarrow>
                         Some (Inr (rh @
                                      [\<lparr>OCPI_Weekday = Weekday (\<sigma>2 pc), PeriodBegin = ''00:00'',
                                        PeriodEnd = minutesSinceMidnightToTime (MinutesSinceMidnight (\<sigma>2 pc))\<rparr>],
                                    \<sigma>2)))))"

fun ocpiIntervals ::
  "addr OpeningHours list \<Rightarrow> OCPIRegularHours list \<Rightarrow> store
     \<Rightarrow> (panic + OCPIRegularHours list \<times> store) option" where
  "ocpiIntervals [] regularHours \<sigma> = Some (Inr (regularHours, \<sigma>))"
| "ocpiIntervals (oh # ohs) regularHours \<sigma> =
     (case ocpiInterval oh regularHours \<sigma> of
        None \<Rightarrow> None
      | Some (Inl p) \<Rightarrow> Some (Inl p)
      | Some (Inr (rh, \<sigma>')) \<Rightarrow> ocpiIntervals ohs rh \<sigma>')"

text \<open>
  \<^verbatim>\<open>func GetOCPIOpeningTimes(ohs []OpeningHours) OCPIOpeningTimes\<close>: the struct returned
  (\<open>RegularHours = None\<close> is the \<^verbatim>\<open>nil\<close> pointer) and the store after the call.
\<close>

definition GetOCPIOpeningTimes ::
  "addr OpeningHours list \<Rightarrow> store \<Rightarrow> (panic + OCPIOpeningTimes \<times> store) option" where
  "GetOCPIOpeningTimes ohs \<sigma> =
     (if isTwentyFourSeven ohs \<sigma>
      then Some (Inr (\<lparr>TwentyFourSeven = True, RegularHours = None\<rparr>, \<sigma>))
      else (case ocpiIntervals ohs [] \<sigma> of
              None \<Rightarrow> None
            | Some (Inl p) \<Rightarrow> Some (Inl p)
            | Some (Inr (regularHours, \<sigma>')) \<Rightarrow>
               if length regularHours = 0
               then Some (Inr (\<lparr>TwentyFourSeven = False, RegularHours = None\<rparr>, \<sigma>'))
               else Some (Inr (\<lparr>TwentyFourSeven = False, RegularHours = Some regularHours\<rparr>, \<sigma>'))))"

section \<open>Notions of the specification\<close>





text \<open>
  The entries of one interval as the specification gives them (section 4.2), on the values
  of the two endpoints after the normalisation of the closing time: the weekdays strictly
  between two weekdays, walking forward with 7 followed by 1, and the day ranges emitted,
  each with its weekday number.
\<close>

definition spec_days_between :: "int \<Rightarrow> int \<Rightarrow> int list" where
  "spec_days_between ow cw = (if ow < cw then [ow + 1..cw - 1] else [ow + 1..7] @ [1..cw - 1])"

definition spec_day_ranges :: "TimeInWeek \<Rightarrow> TimeInWeek \<Rightarrow> (int \<times> string \<times> string) list" where
  "spec_day_ranges opn cls =
     (if Weekday opn = Weekday cls
      then [(Weekday opn, minutesSinceMidnightToTime (MinutesSinceMidnight opn),
             minutesSinceMidnightToTime (MinutesSinceMidnight cls))]
      else (Weekday opn, minutesSinceMidnightToTime (MinutesSinceMidnight opn), ''24:00'')
           # map (\<lambda>d. (d, ''00:00'', ''24:00'')) (spec_days_between (Weekday opn) (Weekday cls))
           @ [(Weekday cls, ''00:00'', minutesSinceMidnightToTime (MinutesSinceMidnight cls))])"

text \<open>Emitting a list of day ranges: one call of \<open>addTimeToWeek\<close> for each, in order.\<close>

definition emit :: "times \<Rightarrow> (int \<times> string \<times> string) list \<Rightarrow> times" where
  "emit ts es = foldl (\<lambda>ts (d, opening, closing). addTimeToWeek ts (getWeekDay d) opening closing) ts es"

text \<open>The data-model invariant of a weekday number.\<close>

definition weekday_ok :: "int \<Rightarrow> bool" where
  "weekday_ok w = (1 \<le> w \<and> w \<le> 7)"

text \<open>
  The weekdays from one weekday up to, and without, another: what the inner loops walk.
\<close>

definition days_from :: "int \<Rightarrow> int \<Rightarrow> int list" where
  "days_from w cw = (if w \<le> cw then [w..cw - 1] else [w..7] @ [1..cw - 1])"

text \<open>The entries of one interval in the OCPI projection (section 4.3), in the same way.\<close>

definition spec_ocpi_ranges :: "TimeInWeek \<Rightarrow> TimeInWeek \<Rightarrow> OCPIRegularHours list" where
  "spec_ocpi_ranges opn cls =
     (if Weekday opn = Weekday cls
      then [\<lparr>OCPI_Weekday = Weekday opn,
              PeriodBegin = minutesSinceMidnightToTime (MinutesSinceMidnight opn),
              PeriodEnd = minutesSinceMidnightToTime (MinutesSinceMidnight cls)\<rparr>]
      else \<lparr>OCPI_Weekday = Weekday opn,
             PeriodBegin = minutesSinceMidnightToTime (MinutesSinceMidnight opn),
             PeriodEnd = ''00:00''\<rparr>
           # map (\<lambda>d. \<lparr>OCPI_Weekday = d, PeriodBegin = ''00:00'', PeriodEnd = ''00:00''\<rparr>)
               (spec_days_between (Weekday opn) (Weekday cls))
           @ [\<lparr>OCPI_Weekday = Weekday cls, PeriodBegin = ''00:00'',
                PeriodEnd = minutesSinceMidnightToTime (MinutesSinceMidnight cls)\<rparr>])"

text \<open>
  A store for examples: the first addresses hold the given values, every other address the
  zero value.
\<close>

definition store_of :: "TimeInWeek list \<Rightarrow> store" where
  "store_of cells p =
     (if p < length cells then cells ! p else \<lparr>Weekday = 0, MinutesSinceMidnight = 0\<rparr>)"

section \<open>Facts\<close>

lemma digit_char_simps:
  "digit_char 0 = CHR ''0''" "digit_char (Suc 0) = CHR ''1''" "digit_char 1 = CHR ''1''"
  "digit_char 2 = CHR ''2''" "digit_char 3 = CHR ''3''" "digit_char 4 = CHR ''4''"
  "digit_char 5 = CHR ''5''" "digit_char 6 = CHR ''6''" "digit_char 7 = CHR ''7''"
  "digit_char 8 = CHR ''8''" "digit_char 9 = CHR ''9''"
  unfolding digit_char_def by code_simp+

lemma of_char_digit_char: "n < 10 \<Longrightarrow> (of_char (digit_char n) :: nat) = 48 + n"
  by (simp add: digit_char_def)

lemma is_digit_digit_char: "n < 10 \<Longrightarrow> is_digit (digit_char n)"
  by (simp add: is_digit_def of_char_digit_char)

lemma go_quo_nonneg: "0 \<le> a \<Longrightarrow> go_quo a 60 = a div 60"
  by (cases "a = 0") (simp_all add: go_quo_def sgn_if)

lemma go_rem_nonneg: "0 \<le> a \<Longrightarrow> go_rem a 60 = a mod 60"
  by (simp add: go_rem_def go_quo_nonneg minus_mult_div_eq_mod)

lemma dec_nat_one: "n < 10 \<Longrightarrow> dec_nat n = [digit_char n]"
  by (simp add: dec_nat.simps)

lemma dec_nat_two: "10 \<le> n \<Longrightarrow> n < 100 \<Longrightarrow> dec_nat n = [digit_char (n div 10), digit_char (n mod 10)]"
  by (subst dec_nat.simps) (simp add: dec_nat_one)

lemma fmt_02d_two:
  "0 \<le> i \<Longrightarrow> i < 100 \<Longrightarrow> fmt_02d i = [digit_char (nat i div 10), digit_char (nat i mod 10)]"
proof (cases "i < 10")
  case True
  assume "0 \<le> i" "i < 100"
  with True have "nat i < 10" by simp
  then show ?thesis using \<open>0 \<le> i\<close> by (simp add: fmt_02d_def dec_nat_one digit_char_simps)
next
  case False
  assume "0 \<le> i" "i < 100"
  with False have "10 \<le> nat i" "nat i < 100" by simp_all
  then show ?thesis using \<open>0 \<le> i\<close> by (simp add: fmt_02d_def dec_nat_two)
qed

lemma fmt_d_one: "0 \<le> i \<Longrightarrow> i < 10 \<Longrightarrow> fmt_d i = [digit_char (nat i)]"
  by (simp add: fmt_d_def dec_nat_one)

lemma is_digit_not_sep:
  "is_digit c \<Longrightarrow> c \<noteq> CHR ''-'' \<and> c \<noteq> CHR ''+'' \<and> c \<noteq> CHR '','' \<and> c \<noteq> CHR ''/''"
  by (auto simp: is_digit_def)

lemma Atoi_one: "is_digit c \<Longrightarrow> Atoi [c] = (int ((of_char c :: nat) - 48), None)"
  using is_digit_not_sep [of c] by (auto simp: Atoi_def is_digit_def)

lemma Atoi_two:
  "is_digit c \<Longrightarrow> is_digit d \<Longrightarrow>
     Atoi [c, d] = (int (((of_char c :: nat) - 48) * 10 + ((of_char d :: nat) - 48)), None)"
  using is_digit_not_sep [of c] by (auto simp: Atoi_def is_digit_def)

lemma fmtTimeInWeek_shape:
  assumes "valid_time t"
  shows "fmtTimeInWeek t =
     [CHR ''W'', digit_char (nat (Weekday t)), CHR ''T'',
      digit_char (nat (MinutesSinceMidnight t div 60) div 10),
      digit_char (nat (MinutesSinceMidnight t div 60) mod 10), CHR '':'',
      digit_char (nat (MinutesSinceMidnight t mod 60) div 10),
      digit_char (nat (MinutesSinceMidnight t mod 60) mod 10), CHR '':'', CHR ''0'', CHR ''0'']"
proof -
  from assms have w: "0 \<le> Weekday t" "Weekday t < 10"
    and m: "0 \<le> MinutesSinceMidnight t" "MinutesSinceMidnight t \<le> 1440"
    by (simp_all add: valid_time_def)
  from m have h: "0 \<le> MinutesSinceMidnight t div 60" "MinutesSinceMidnight t div 60 < 100"
    by simp_all
  have r: "0 \<le> MinutesSinceMidnight t mod 60" "MinutesSinceMidnight t mod 60 < 100"
    by simp_all
  show ?thesis
    by (simp add: fmtTimeInWeek_def go_quo_nonneg [OF m(1)] go_rem_nonneg [OF m(1)]
        fmt_d_one [OF w] fmt_02d_two [OF h] fmt_02d_two [OF r])
qed

lemma digit_val_digit_char: "n < 10 \<Longrightarrow> (of_char (digit_char n) :: nat) - 48 = n"
  by (simp add: of_char_digit_char)

lemma parseTimeInWeek_fmt:
  assumes "valid_time t"
  shows "parseTimeInWeek (fmtTimeInWeek t) = (Some t, None)"
proof -
  from assms have w: "1 \<le> Weekday t" "Weekday t \<le> 7"
    and m: "0 \<le> MinutesSinceMidnight t" "MinutesSinceMidnight t \<le> 1440"
    by (simp_all add: valid_time_def)
  define w' where "w' = nat (Weekday t)"
  define h where "h = nat (MinutesSinceMidnight t div 60)"
  define r where "r = nat (MinutesSinceMidnight t mod 60)"
  have wb: "w' < 10" "1 \<le> w'" "w' \<le> 7" "int w' = Weekday t" using w by (simp_all add: w'_def)
  have hb: "h \<le> 24" "int h = MinutesSinceMidnight t div 60" using m by (simp_all add: h_def)
  have rb: "r < 60" "int r = MinutesSinceMidnight t mod 60" by (simp_all add: r_def)
  have tot: "MinutesSinceMidnight t = int h * 60 + int r" by (simp add: hb rb)
  have h24: "h = 24 \<Longrightarrow> r = 0" using m tot by simp
  have d: "h div 10 < 10" "h mod 10 < 10" "r div 10 < 10" "r mod 10 < 10"
    using hb rb by simp_all
  have shape: "fmtTimeInWeek t =
     [CHR ''W'', digit_char w', CHR ''T'', digit_char (h div 10), digit_char (h mod 10), CHR '':'',
      digit_char (r div 10), digit_char (r mod 10), CHR '':'', CHR ''0'', CHR ''0'']"
    by (simp add: fmtTimeInWeek_shape [OF assms] w'_def h_def r_def)
  have z: "is_digit (CHR ''0'')" by (simp add: is_digit_def)
  have fs: "FindStringSubmatch (fmtTimeInWeek t) =
     [fmtTimeInWeek t, [digit_char w'], [digit_char (h div 10), digit_char (h mod 10)],
      [digit_char (r div 10), digit_char (r mod 10)]]"
    unfolding shape
    by (simp add: FindStringSubmatch_def is_digit_digit_char wb d z)
  have pw: "parseWeekDay [digit_char w'] = Weekday t"
    using wb by (simp add: parseWeekDay_def Atoi_one is_digit_digit_char digit_val_digit_char)
  have ah: "Atoi [digit_char (h div 10), digit_char (h mod 10)] = (int h, None)"
    by (simp add: Atoi_two is_digit_digit_char digit_val_digit_char d)
  have ar: "Atoi [digit_char (r div 10), digit_char (r mod 10)] = (int r, None)"
    by (simp add: Atoi_two is_digit_digit_char digit_val_digit_char d)
  have pm: "ParseMinutesSinceMidnight [digit_char (h div 10), digit_char (h mod 10)]
      [digit_char (r div 10), digit_char (r mod 10)] = (MinutesSinceMidnight t, None)"
    using hb(1) rb(1) h24 by (auto simp: ParseMinutesSinceMidnight_def ah ar tot)
  have ne: "fmtTimeInWeek t \<noteq> []" by (simp add: shape)
  show ?thesis
    using w ne by (simp add: parseTimeInWeek_def fs pw pm)
qed

lemma fmtTimeInWeek_no_sep:
  assumes "valid_time t"
  shows "CHR '','' \<notin> set (fmtTimeInWeek t) \<and> CHR ''/'' \<notin> set (fmtTimeInWeek t)"
proof -
  from assms have w: "1 \<le> Weekday t" "Weekday t \<le> 7"
    and m: "0 \<le> MinutesSinceMidnight t" "MinutesSinceMidnight t \<le> 1440"
    by (simp_all add: valid_time_def)
  have d: "nat (Weekday t) < 10" "nat (MinutesSinceMidnight t div 60) div 10 < 10"
    "nat (MinutesSinceMidnight t div 60) mod 10 < 10" "nat (MinutesSinceMidnight t mod 60) div 10 < 10"
    "nat (MinutesSinceMidnight t mod 60) mod 10 < 10"
    using w m by simp_all
  show ?thesis
    unfolding fmtTimeInWeek_shape [OF assms]
    using d [THEN is_digit_digit_char, THEN is_digit_not_sep] by auto
qed

lemma Split_not_Nil: "Split s c \<noteq> []"
  by (induction s) (auto split: list.splits)

lemma Split_no_sep: "c \<notin> set s \<Longrightarrow> Split s c = [s]"
  by (induction s) auto

lemma Split_piece: "c \<notin> set p \<Longrightarrow> Split (p @ c # r) c = p # Split r c"
  by (induction p) auto

lemma Split_Join:
  "segs \<noteq> [] \<Longrightarrow> \<forall>p \<in> set segs. c \<notin> set p \<Longrightarrow> Split (Join segs c) c = segs"
proof (induction segs c rule: Join.induct)
  case (1 c)
  then show ?case by simp
next
  case (2 p c)
  then show ?case by (simp add: Split_no_sep)
next
  case (3 p q ps c)
  then show ?case by (simp add: Split_piece)
qed

lemma OpeningHours_String_no_comma:
  "valid_interval oh \<Longrightarrow> CHR '','' \<notin> set (OpeningHours_String oh)"
  by (auto simp: OpeningHours_String_def valid_interval_def fmtTimeInWeek_no_sep
      split: option.splits)

lemma OpeningHours_String_not_Nil: "OpeningHours_String oh \<noteq> []"
  by (simp add: OpeningHours_String_def)

lemma Split_OpeningHours_String:
  assumes "valid_interval oh"
  shows "Split (OpeningHours_String oh) (CHR ''/'') =
    [case Open oh of None \<Rightarrow> [] | Some t \<Rightarrow> fmtTimeInWeek t,
     case Close oh of None \<Rightarrow> [] | Some t \<Rightarrow> fmtTimeInWeek t]"
proof -
  have a: "CHR ''/'' \<notin> set (case Open oh of None \<Rightarrow> [] | Some t \<Rightarrow> fmtTimeInWeek t)"
    using assms by (auto simp: valid_interval_def fmtTimeInWeek_no_sep split: option.splits)
  have b: "CHR ''/'' \<notin> set (case Close oh of None \<Rightarrow> [] | Some t \<Rightarrow> fmtTimeInWeek t)"
    using assms by (auto simp: valid_interval_def fmtTimeInWeek_no_sep split: option.splits)
  show ?thesis
    by (simp add: OpeningHours_String_def Split_piece [OF a] Split_no_sep [OF b])
qed

lemma parseTimeInWeek_endpoint:
  "(case e of None \<Rightarrow> True | Some t \<Rightarrow> valid_time t) \<Longrightarrow>
     parseTimeInWeek (case e of None \<Rightarrow> [] | Some t \<Rightarrow> fmtTimeInWeek t) = (e, None)"
  by (cases e) (simp_all add: parseTimeInWeek_fmt, simp add: parseTimeInWeek_def)

lemma parse_segments_formatted:
  "\<forall>oh \<in> set ohs. valid_interval oh \<Longrightarrow>
     parse_segments (map OpeningHours_String ohs) acc = (Some (acc @ ohs), None)"
proof (induction ohs arbitrary: acc)
  case Nil
  then show ?case by simp
next
  case (Cons oh ohs)
  then have v: "valid_interval oh" by simp
  have o: "parseTimeInWeek (case Open oh of None \<Rightarrow> [] | Some t \<Rightarrow> fmtTimeInWeek t) = (Open oh, None)"
    using v by (intro parseTimeInWeek_endpoint) (simp add: valid_interval_def)
  have c: "parseTimeInWeek (case Close oh of None \<Rightarrow> [] | Some t \<Rightarrow> fmtTimeInWeek t) = (Close oh, None)"
    using v by (intro parseTimeInWeek_endpoint) (simp add: valid_interval_def)
  show ?case
    using Cons
    by (simp add: OpeningHours_String_not_Nil Split_OpeningHours_String [OF v] o c)
qed

lemma Parse_Format:
  assumes "\<forall>oh \<in> set ohs. valid_interval oh"
  shows "ParseOpeningHours (OpeningHoursSliceToString ohs) = (Some ohs, None)"
proof (cases "ohs = []")
  case True
  then show ?thesis by (simp add: ParseOpeningHours_def OpeningHoursSliceToString_def)
next
  case False
  have "Split (Join (map OpeningHours_String ohs) (CHR '','')) (CHR '','') = map OpeningHours_String ohs"
    using False assms by (intro Split_Join) (auto simp: OpeningHours_String_no_comma)
  then show ?thesis
    using parse_segments_formatted [OF assms, of "[]"]
    by (simp add: ParseOpeningHours_def OpeningHoursSliceToString_def)
qed



















lemma weekday_ok_cases:
  "weekday_ok w = (w = 1 \<or> w = 2 \<or> w = 3 \<or> w = 4 \<or> w = 5 \<or> w = 6 \<or> w = 7)"
  unfolding weekday_ok_def by arith

lemma setNextDay_weekday: "weekday_ok w \<Longrightarrow> setNextDay w = (if w = 7 then 1 else w + 1)"
  unfolding weekday_ok_cases by (elim disjE) (simp_all add: setNextDay_def go_rem_def go_quo_def)

lemma setPreviousDay_weekday: "weekday_ok w \<Longrightarrow> setPreviousDay w = (if w = 1 then 7 else w - 1)"
  unfolding weekday_ok_cases by (elim disjE) (simp_all add: setPreviousDay_def wrap64_def)

lemma weekday_ok_setNextDay: "weekday_ok w \<Longrightarrow> weekday_ok (setNextDay w)"
  by (simp add: setNextDay_weekday) (simp add: weekday_ok_def)

lemma weekday_ok_setPreviousDay: "weekday_ok w \<Longrightarrow> weekday_ok (setPreviousDay w)"
  by (simp add: setPreviousDay_weekday) (simp add: weekday_ok_def)

lemma days_from_same: "days_from w w = []"
  by (simp add: days_from_def)

lemma days_from_step:
  assumes "weekday_ok w" "weekday_ok cw" "w \<noteq> cw"
  shows "days_from w cw = w # days_from (setNextDay w) cw"
proof (cases "w = 7")
  case True
  with assms have "cw < 7" by (simp add: weekday_ok_def)
  moreover have "setNextDay 7 = 1" by (simp add: setNextDay_def go_rem_def go_quo_def)
  moreover have "1 \<le> cw" using assms(2) by (simp add: weekday_ok_def)
  ultimately show ?thesis using True
    by (simp add: days_from_def upto_rec1 [of 7 7])
next
  case False
  show ?thesis
  proof (cases "w < cw")
    case True
    then have "[w..cw - 1] = w # [w + 1..cw - 1]" by (simp add: upto_rec1)
    with True False show ?thesis
      by (simp add: setNextDay_weekday [OF assms(1)] days_from_def)
  next
    case c: False
    with assms have lt: "cw < w" "w \<le> 7" by (simp_all add: weekday_ok_def)
    then have "[w..7] = w # [w + 1..7]" by (simp add: upto_rec1)
    with lt False show ?thesis
      by (simp add: setNextDay_weekday [OF assms(1)] days_from_def)
  qed
qed

lemma days_from_next:
  "weekday_ok ow \<Longrightarrow> weekday_ok cw \<Longrightarrow> ow \<noteq> cw \<Longrightarrow> days_from (setNextDay ow) cw = spec_days_between ow cw"
  by (simp add: setNextDay_weekday days_from_def spec_days_between_def) (simp add: weekday_ok_def)

lemma length_days_between:
  "weekday_ok ow \<Longrightarrow> weekday_ok cw \<Longrightarrow> ow \<noteq> cw \<Longrightarrow> length (spec_days_between ow cw) \<le> 5"
  by (auto simp: spec_days_between_def weekday_ok_def)

lemma dist_step:
  "weekday_ok w \<Longrightarrow> weekday_ok cw \<Longrightarrow> w \<noteq> cw \<Longrightarrow>
     nat ((cw - setNextDay w) mod 7) < nat ((cw - w) mod 7)"
  unfolding weekday_ok_cases
  by (elim disjE) (simp_all add: setNextDay_def go_rem_def go_quo_def)

lemma emit_snoc: "emit ts (es @ [(d, a, b)]) = addTimeToWeek (emit ts es) (getWeekDay d) a b"
  by (simp add: emit_def)

lemma emit_Cons: "emit ts ((d, a, b) # es) = emit (addTimeToWeek ts (getWeekDay d) a b) es"
  by (simp add: emit_def)

lemma fullDays_walk:
  assumes "po \<noteq> pc" "weekday_ok (Weekday (\<sigma> po))" "weekday_ok (Weekday (\<sigma> pc))"
  shows "fullDays po pc ts \<sigma> =
     Some (emit ts (map (\<lambda>d. (d, ''00:00'', ''24:00'')) (days_from (Weekday (\<sigma> po)) (Weekday (\<sigma> pc)))),
           \<sigma>(po := (\<sigma> po)\<lparr>Weekday := Weekday (\<sigma> pc)\<rparr>))"
  using assms
proof (induction "nat ((Weekday (\<sigma> pc) - Weekday (\<sigma> po)) mod 7)" arbitrary: ts \<sigma> rule: less_induct)
  case less
  show ?case
  proof (cases "Weekday (\<sigma> po) = Weekday (\<sigma> pc)")
    case True
    have "\<sigma>(po := (\<sigma> po)\<lparr>Weekday := Weekday (\<sigma> po)\<rparr>) = \<sigma>" by simp
    with True show ?thesis
      by (subst fullDays.simps) (simp add: days_from_same emit_def)
  next
    case False
    let ?\<sigma> = "update_Weekday po setNextDay \<sigma>"
    have pc: "?\<sigma> pc = \<sigma> pc" using less.prems(1) by (simp add: update_Weekday_def)
    have po: "Weekday (?\<sigma> po) = setNextDay (Weekday (\<sigma> po))" by (simp add: update_Weekday_def)
    have lt: "nat ((Weekday (?\<sigma> pc) - Weekday (?\<sigma> po)) mod 7)
        < nat ((Weekday (\<sigma> pc) - Weekday (\<sigma> po)) mod 7)"
      unfolding pc po using less.prems False by (intro dist_step) auto
    have ok: "weekday_ok (Weekday (?\<sigma> po))" "weekday_ok (Weekday (?\<sigma> pc))"
      using less.prems by (simp_all add: pc po weekday_ok_setNextDay)
    have st: "?\<sigma>(po := (?\<sigma> po)\<lparr>Weekday := v\<rparr>) = \<sigma>(po := (\<sigma> po)\<lparr>Weekday := v\<rparr>)" for v
      by (simp add: update_Weekday_def)
    show ?thesis
      apply (subst fullDays.simps)
      apply (simp only: False not_False_eq_True if_True)
      apply (subst less.hyps [OF lt less.prems(1) ok])
      apply (simp only: pc po st)
      apply (simp add: days_from_step [OF less.prems(2,3) False] emit_Cons)
      done
  qed
qed

lemma emit_append: "emit ts (es @ fs) = emit (emit ts es) fs"
  by (simp add: emit_def)

lemma ocpiFullDays_walk:
  assumes "po \<noteq> pc" "weekday_ok (Weekday (\<sigma> po))" "weekday_ok (Weekday (\<sigma> pc))"
  shows "ocpiFullDays po pc rh \<sigma> =
     Some (rh @ map (\<lambda>d. \<lparr>OCPI_Weekday = d, PeriodBegin = ''00:00'', PeriodEnd = ''00:00''\<rparr>)
                  (days_from (Weekday (\<sigma> po)) (Weekday (\<sigma> pc))),
           \<sigma>(po := (\<sigma> po)\<lparr>Weekday := Weekday (\<sigma> pc)\<rparr>))"
  using assms
proof (induction "nat ((Weekday (\<sigma> pc) - Weekday (\<sigma> po)) mod 7)" arbitrary: rh \<sigma> rule: less_induct)
  case less
  show ?case
  proof (cases "Weekday (\<sigma> po) = Weekday (\<sigma> pc)")
    case True
    have "\<sigma>(po := (\<sigma> po)\<lparr>Weekday := Weekday (\<sigma> po)\<rparr>) = \<sigma>" by simp
    with True show ?thesis
      by (subst ocpiFullDays.simps) (simp add: days_from_same)
  next
    case False
    let ?\<sigma> = "update_Weekday po setNextDay \<sigma>"
    have pc: "?\<sigma> pc = \<sigma> pc" using less.prems(1) by (simp add: update_Weekday_def)
    have po: "Weekday (?\<sigma> po) = setNextDay (Weekday (\<sigma> po))" by (simp add: update_Weekday_def)
    have lt: "nat ((Weekday (?\<sigma> pc) - Weekday (?\<sigma> po)) mod 7)
        < nat ((Weekday (\<sigma> pc) - Weekday (\<sigma> po)) mod 7)"
      unfolding pc po using less.prems False by (intro dist_step) auto
    have ok: "weekday_ok (Weekday (?\<sigma> po))" "weekday_ok (Weekday (?\<sigma> pc))"
      using less.prems by (simp_all add: pc po weekday_ok_setNextDay)
    have st: "?\<sigma>(po := (?\<sigma> po)\<lparr>Weekday := v\<rparr>) = \<sigma>(po := (\<sigma> po)\<lparr>Weekday := v\<rparr>)" for v
      by (simp add: update_Weekday_def)
    show ?thesis
      apply (subst ocpiFullDays.simps)
      apply (simp only: False not_False_eq_True if_True)
      apply (subst less.hyps [OF lt less.prems(1) ok])
      apply (simp only: pc po st)
      apply (simp add: days_from_step [OF less.prems(2,3) False])
      done
  qed
qed

lemma expandInterval_returns:
  assumes oh: "Open oh = Some po" "Close oh = Some pc"
    and s1: "\<sigma>1 = closeAtMidnight pc \<sigma>"
    and ok: "weekday_ok (Weekday (\<sigma>1 po))" "weekday_ok (Weekday (\<sigma>1 pc))"
  shows "expandInterval oh ts \<sigma> =
     Some (Inr (emit ts (spec_day_ranges (\<sigma>1 po) (\<sigma>1 pc)),
                \<sigma>1(po := (\<sigma>1 po)\<lparr>Weekday := Weekday (\<sigma>1 pc)\<rparr>)))"
proof (cases "Weekday (\<sigma>1 po) = Weekday (\<sigma>1 pc)")
  case True
  have "\<sigma>1(po := (\<sigma>1 po)\<lparr>Weekday := Weekday (\<sigma>1 po)\<rparr>) = \<sigma>1" by simp
  with True show ?thesis
    by (simp add: expandInterval_def oh s1 [symmetric] spec_day_ranges_def emit_def)
next
  case False
  then have ne: "po \<noteq> pc" by auto
  let ?\<sigma> = "update_Weekday po setNextDay \<sigma>1"
  have pc: "?\<sigma> pc = \<sigma>1 pc" using ne by (simp add: update_Weekday_def)
  have po: "Weekday (?\<sigma> po) = setNextDay (Weekday (\<sigma>1 po))" by (simp add: update_Weekday_def)
  have ok': "weekday_ok (Weekday (?\<sigma> po))" "weekday_ok (Weekday (?\<sigma> pc))"
    using ok by (simp_all add: pc po weekday_ok_setNextDay)
  have st: "?\<sigma>(po := (?\<sigma> po)\<lparr>Weekday := v\<rparr>) = \<sigma>1(po := (\<sigma>1 po)\<lparr>Weekday := v\<rparr>)" for v
    by (simp add: update_Weekday_def)
  have w: "fullDays po pc ts' ?\<sigma> =
     Some (emit ts' (map (\<lambda>d. (d, ''00:00'', ''24:00'')) (spec_days_between (Weekday (\<sigma>1 po)) (Weekday (\<sigma>1 pc)))),
           \<sigma>1(po := (\<sigma>1 po)\<lparr>Weekday := Weekday (\<sigma>1 pc)\<rparr>))" for ts'
    unfolding fullDays_walk [OF ne ok']
    by (simp only: pc po st days_from_next [OF ok False])
  show ?thesis
    using False ne
    by (simp add: expandInterval_def oh s1 [symmetric] w spec_day_ranges_def emit_def)
qed

lemma ocpiInterval_returns:
  assumes oh: "Open oh = Some po" "Close oh = Some pc"
    and s1: "\<sigma>1 = ocpiMidnight pc \<sigma>"
    and ok: "weekday_ok (Weekday (\<sigma>1 po))" "weekday_ok (Weekday (\<sigma>1 pc))"
  shows "ocpiInterval oh rh \<sigma> =
     Some (Inr (rh @ spec_ocpi_ranges (\<sigma>1 po) (\<sigma>1 pc),
                \<sigma>1(po := (\<sigma>1 po)\<lparr>Weekday := Weekday (\<sigma>1 pc)\<rparr>)))"
proof (cases "Weekday (\<sigma>1 po) = Weekday (\<sigma>1 pc)")
  case True
  have "\<sigma>1(po := (\<sigma>1 po)\<lparr>Weekday := Weekday (\<sigma>1 po)\<rparr>) = \<sigma>1" by simp
  with True show ?thesis
    by (simp add: ocpiInterval_def oh s1 [symmetric] spec_ocpi_ranges_def)
next
  case False
  then have ne: "po \<noteq> pc" by auto
  let ?\<sigma> = "update_Weekday po setNextDay \<sigma>1"
  have pc: "?\<sigma> pc = \<sigma>1 pc" using ne by (simp add: update_Weekday_def)
  have po: "Weekday (?\<sigma> po) = setNextDay (Weekday (\<sigma>1 po))" by (simp add: update_Weekday_def)
  have ok': "weekday_ok (Weekday (?\<sigma> po))" "weekday_ok (Weekday (?\<sigma> pc))"
    using ok by (simp_all add: pc po weekday_ok_setNextDay)
  have st: "?\<sigma>(po := (?\<sigma> po)\<lparr>Weekday := v\<rparr>) = \<sigma>1(po := (\<sigma>1 po)\<lparr>Weekday := v\<rparr>)" for v
    by (simp add: update_Weekday_def)
  have w: "ocpiFullDays po pc rh' ?\<sigma> =
     Some (rh' @ map (\<lambda>d. \<lparr>OCPI_Weekday = d, PeriodBegin = ''00:00'', PeriodEnd = ''00:00''\<rparr>)
                   (spec_days_between (Weekday (\<sigma>1 po)) (Weekday (\<sigma>1 pc))),
           \<sigma>1(po := (\<sigma>1 po)\<lparr>Weekday := Weekday (\<sigma>1 pc)\<rparr>))" for rh'
    unfolding ocpiFullDays_walk [OF ne ok']
    by (simp only: pc po st days_from_next [OF ok False])
  show ?thesis
    using False ne
    by (simp add: ocpiInterval_def oh s1 [symmetric] w spec_ocpi_ranges_def)
qed

lemmas eval_defs =
  GetHumanReadableTimes_def expandInterval_def closeAtMidnight_def update_Weekday_def
  setNextDay_def setPreviousDay_def addTimeToWeek_def getWeekDay_def
  minutesSinceMidnightToTime_def go_quo_def go_rem_def fmt_02d_def dec_nat.simps
  digit_char_simps wrap64_def store_of_def
  GetOCPIOpeningTimes_def ocpiInterval_def ocpiMidnight_def isTwentyFourSeven_def



lemma weekday_ok_closeAtMidnight:
  "weekday_ok (Weekday (\<sigma> p)) \<Longrightarrow> weekday_ok (Weekday (closeAtMidnight pc \<sigma> p))"
  by (auto simp: closeAtMidnight_def update_Weekday_def Let_def weekday_ok_setPreviousDay)

lemma weekday_ok_ocpiMidnight:
  "weekday_ok (Weekday (\<sigma> p)) \<Longrightarrow> weekday_ok (Weekday (ocpiMidnight pc \<sigma> p))"
  by (auto simp: ocpiMidnight_def update_Weekday_def weekday_ok_setPreviousDay)

lemma length_day_ranges:
  "weekday_ok (Weekday a) \<Longrightarrow> weekday_ok (Weekday b) \<Longrightarrow> length (spec_day_ranges a b) \<le> 7"
  using length_days_between [of "Weekday a" "Weekday b"] by (simp add: spec_day_ranges_def)

lemma length_ocpi_ranges:
  "weekday_ok (Weekday a) \<Longrightarrow> weekday_ok (Weekday b) \<Longrightarrow> length (spec_ocpi_ranges a b) \<le> 7"
  using length_days_between [of "Weekday a" "Weekday b"] by (simp add: spec_ocpi_ranges_def)




lemma setNextDay_steps:
  "weekday_ok w \<Longrightarrow> weekday_ok cw \<Longrightarrow> \<exists>k \<le> nat ((cw - w) mod 7). (setNextDay ^^ k) w = cw"
proof (induction "nat ((cw - w) mod 7)" arbitrary: w rule: less_induct)
  case less
  show ?case
  proof (cases "w = cw")
    case True
    then show ?thesis by (intro exI [of _ 0]) simp
  next
    case False
    from dist_step [OF less.prems False]
    have lt: "nat ((cw - setNextDay w) mod 7) < nat ((cw - w) mod 7)" .
    from less.hyps [OF lt weekday_ok_setNextDay [OF less.prems(1)] less.prems(2)]
    obtain k where k: "k \<le> nat ((cw - setNextDay w) mod 7)" "(setNextDay ^^ k) (setNextDay w) = cw"
      by blast
    have "(setNextDay ^^ Suc k) w = cw" using k(2) by (simp add: funpow_swap1)
    moreover have "Suc k \<le> nat ((cw - w) mod 7)" using k(1) lt by linarith
    ultimately show ?thesis by blast
  qed
qed

lemma setNextDay_reaches:
  assumes "weekday_ok w" "weekday_ok cw"
  shows "\<exists>k<7. (setNextDay ^^ k) w = cw"
proof -
  from setNextDay_steps [OF assms]
  obtain k where k: "k \<le> nat ((cw - w) mod 7)" "(setNextDay ^^ k) w = cw" by blast
  have "nat ((cw - w) mod 7) < 7" by simp
  with k show ?thesis by (intro exI [of _ k]) simp
qed



lemma ocpi_ranges_not_Nil: "spec_ocpi_ranges a b \<noteq> []"
  by (simp add: spec_ocpi_ranges_def)

lemma ocpiIntervals_returns:
  assumes "\<forall>oh \<in> set ohs. \<exists>po pc. Open oh = Some po \<and> Close oh = Some pc
              \<and> weekday_ok (Weekday (\<sigma> po)) \<and> weekday_ok (Weekday (\<sigma> pc))"
  shows "\<exists>rh' \<sigma>'. ocpiIntervals ohs rh \<sigma> = Some (Inr (rh', \<sigma>')) \<and> length rh + length ohs \<le> length rh'"
  using assms
proof (induction ohs arbitrary: rh \<sigma>)
  case Nil
  then show ?case by simp
next
  case (Cons oh ohs)
  then obtain po pc where oh: "Open oh = Some po" "Close oh = Some pc"
    and ok: "weekday_ok (Weekday (\<sigma> po))" "weekday_ok (Weekday (\<sigma> pc))"
    by auto
  let ?\<sigma>1 = "ocpiMidnight pc \<sigma>"
  let ?\<sigma>2 = "?\<sigma>1(po := (?\<sigma>1 po)\<lparr>Weekday := Weekday (?\<sigma>1 pc)\<rparr>)"
  let ?rh = "rh @ spec_ocpi_ranges (?\<sigma>1 po) (?\<sigma>1 pc)"
  have ok1: "weekday_ok (Weekday (?\<sigma>1 p))" if "weekday_ok (Weekday (\<sigma> p))" for p
    using that by (rule weekday_ok_ocpiMidnight)
  have body: "ocpiInterval oh rh \<sigma> = Some (Inr (?rh, ?\<sigma>2))"
    by (rule ocpiInterval_returns [OF oh refl ok1 [OF ok(1)] ok1 [OF ok(2)]])
  have ok2: "weekday_ok (Weekday (?\<sigma>2 p))" if "weekday_ok (Weekday (\<sigma> p))" for p
    using ok1 [OF that] ok1 [OF ok(2)] by simp
  have "\<forall>oh \<in> set ohs. \<exists>po pc. Open oh = Some po \<and> Close oh = Some pc
              \<and> weekday_ok (Weekday (?\<sigma>2 po)) \<and> weekday_ok (Weekday (?\<sigma>2 pc))"
    using Cons.prems ok2 by (metis list.set_intros(2))
  from Cons.IH [OF this, of ?rh]
  obtain rh' \<sigma>' where r: "ocpiIntervals ohs ?rh ?\<sigma>2 = Some (Inr (rh', \<sigma>'))"
    "length ?rh + length ohs \<le> length rh'" by blast
  have "1 \<le> length (spec_ocpi_ranges (?\<sigma>1 po) (?\<sigma>1 pc))"
    using ocpi_ranges_not_Nil [of "?\<sigma>1 po" "?\<sigma>1 pc"] by (simp add: Suc_le_eq)
  with r show ?case by (simp add: body)
qed




lemma isTwentyFourSeven_loop_iff:
  "isTwentyFourSeven_loop ohs \<sigma> =
     (\<forall>oh \<in> set ohs. \<exists>po pc. Open oh = Some po \<and> Close oh = Some pc
         \<and> \<sigma> po = \<lparr>Weekday = 1, MinutesSinceMidnight = 0\<rparr>
         \<and> \<sigma> pc = \<lparr>Weekday = 7, MinutesSinceMidnight = 1440\<rparr>)"
proof (induction ohs)
  case Nil
  then show ?case by simp
next
  case (Cons oh ohs)
  have "(r = \<lparr>Weekday = w, MinutesSinceMidnight = m\<rparr>) = (Weekday r = w \<and> MinutesSinceMidnight r = m)"
    for r w m by (cases r) simp
  with Cons show ?case
    by (auto split: option.splits)
qed

text \<open>
  The part of the claim on the 24/7 flag that the code satisfies: for the empty sequence the
  flag is false; for a non-empty sequence of intervals that are all exactly
  (1, 0) to (7, 1440) the result is the flag alone, and nothing is written; for a sequence
  of intervals with both endpoints present and weekdays in 1..7 of which one is not of
  that shape, the projection returns and the flag is false.
\<close>

lemma GetOCPIOpeningTimes_flag:
  "GetOCPIOpeningTimes [] \<sigma> = Some (Inr (\<lparr>TwentyFourSeven = False, RegularHours = None\<rparr>, \<sigma>))"
  "ohs \<noteq> [] \<Longrightarrow>
     \<forall>oh \<in> set ohs. \<exists>po pc. Open oh = Some po \<and> Close oh = Some pc
         \<and> \<sigma> po = \<lparr>Weekday = 1, MinutesSinceMidnight = 0\<rparr>
         \<and> \<sigma> pc = \<lparr>Weekday = 7, MinutesSinceMidnight = 1440\<rparr> \<Longrightarrow>
     GetOCPIOpeningTimes ohs \<sigma> = Some (Inr (\<lparr>TwentyFourSeven = True, RegularHours = None\<rparr>, \<sigma>))"
  "\<forall>oh \<in> set ohs. \<exists>po pc. Open oh = Some po \<and> Close oh = Some pc
         \<and> weekday_ok (Weekday (\<sigma> po)) \<and> weekday_ok (Weekday (\<sigma> pc)) \<Longrightarrow>
     \<exists>oh \<in> set ohs. \<not> (\<exists>po pc. Open oh = Some po \<and> Close oh = Some pc
         \<and> \<sigma> po = \<lparr>Weekday = 1, MinutesSinceMidnight = 0\<rparr>
         \<and> \<sigma> pc = \<lparr>Weekday = 7, MinutesSinceMidnight = 1440\<rparr>) \<Longrightarrow>
     \<exists>rh \<sigma>'. GetOCPIOpeningTimes ohs \<sigma>
        = Some (Inr (\<lparr>TwentyFourSeven = False, RegularHours = Some rh\<rparr>, \<sigma>')) \<and> rh \<noteq> []"
proof -
  show "GetOCPIOpeningTimes [] \<sigma> = Some (Inr (\<lparr>TwentyFourSeven = False, RegularHours = None\<rparr>, \<sigma>))"
    by (simp add: GetOCPIOpeningTimes_def isTwentyFourSeven_def)
next
  assume "ohs \<noteq> []" and "\<forall>oh \<in> set ohs. \<exists>po pc. Open oh = Some po \<and> Close oh = Some pc
         \<and> \<sigma> po = \<lparr>Weekday = 1, MinutesSinceMidnight = 0\<rparr>
         \<and> \<sigma> pc = \<lparr>Weekday = 7, MinutesSinceMidnight = 1440\<rparr>"
  then have "isTwentyFourSeven ohs \<sigma>"
    by (simp add: isTwentyFourSeven_def isTwentyFourSeven_loop_iff)
  then show "GetOCPIOpeningTimes ohs \<sigma> = Some (Inr (\<lparr>TwentyFourSeven = True, RegularHours = None\<rparr>, \<sigma>))"
    by (simp add: GetOCPIOpeningTimes_def)
next
  assume ok: "\<forall>oh \<in> set ohs. \<exists>po pc. Open oh = Some po \<and> Close oh = Some pc
         \<and> weekday_ok (Weekday (\<sigma> po)) \<and> weekday_ok (Weekday (\<sigma> pc))"
    and ne: "\<exists>oh \<in> set ohs. \<not> (\<exists>po pc. Open oh = Some po \<and> Close oh = Some pc
         \<and> \<sigma> po = \<lparr>Weekday = 1, MinutesSinceMidnight = 0\<rparr>
         \<and> \<sigma> pc = \<lparr>Weekday = 7, MinutesSinceMidnight = 1440\<rparr>)"
  from ne have f: "\<not> isTwentyFourSeven ohs \<sigma>"
    unfolding isTwentyFourSeven_def isTwentyFourSeven_loop_iff by auto
  from ne have n: "ohs \<noteq> []" by auto
  from ocpiIntervals_returns [OF ok, of "[]"]
  obtain rh \<sigma>' where r: "ocpiIntervals ohs [] \<sigma> = Some (Inr (rh, \<sigma>'))" "length ohs \<le> length rh"
    by auto
  with n have "rh \<noteq> []" by auto
  with f r show "\<exists>rh \<sigma>'. GetOCPIOpeningTimes ohs \<sigma>
        = Some (Inr (\<lparr>TwentyFourSeven = False, RegularHours = Some rh\<rparr>, \<sigma>')) \<and> rh \<noteq> []"
    by (simp add: GetOCPIOpeningTimes_def)
qed

section \<open>Claims\<close>

text \<open>
  C7. \<open>ParseMinutesSinceMidnight\<close> checks the hours first, then the minutes, then the
  combination. It returns \<open>hours * 60 + minutes\<close> with no error exactly when the hour text
  parses as an integer in 0..24, the minute text parses as an integer in 0..59 and the
  pair is not hour 24 with a minute other than 0. It returns the error
  \<^verbatim>\<open>invalid hours value\<close> when the hour text does not parse or is out of range, the error
  \<^verbatim>\<open>invalid minutes value\<close> when the hours are accepted and the minute text does not parse
  or is out of range, and the error \<^verbatim>\<open>invalid value\<close> when both are accepted and the hour
  is 24 with a minute other than 0. In particular ("25","00") gives the hours error,
  ("24","01") the generic error and ("24","00") gives 1440.
\<close>

theorem ParseMinutesSinceMidnight_cases:
  "(snd (ParseMinutesSinceMidnight v1 v2) = None \<longleftrightarrow>
      parses_in v1 0 24 \<and> parses_in v2 0 59 \<and> \<not> (fst (Atoi v1) = 24 \<and> fst (Atoi v2) \<noteq> 0))
   \<and> (snd (ParseMinutesSinceMidnight v1 v2) = None \<longrightarrow>
        fst (ParseMinutesSinceMidnight v1 v2) = fst (Atoi v1) * 60 + fst (Atoi v2))
   \<and> (\<not> parses_in v1 0 24 \<longrightarrow>
        ParseMinutesSinceMidnight v1 v2 = (0, Some ''invalid hours value''))
   \<and> (parses_in v1 0 24 \<and> \<not> parses_in v2 0 59 \<longrightarrow>
        ParseMinutesSinceMidnight v1 v2 = (0, Some ''invalid minutes value''))
   \<and> (parses_in v1 0 24 \<and> parses_in v2 0 59 \<and> fst (Atoi v1) = 24 \<and> fst (Atoi v2) \<noteq> 0 \<longrightarrow>
        ParseMinutesSinceMidnight v1 v2 = (0, Some ''invalid value''))
   \<and> ParseMinutesSinceMidnight ''25'' ''00'' = (0, Some ''invalid hours value'')
   \<and> ParseMinutesSinceMidnight ''24'' ''01'' = (0, Some ''invalid value'')
   \<and> ParseMinutesSinceMidnight ''24'' ''00'' = (1440, None)"
proof -
  have ex: "Atoi ''25'' = (25, None)" "Atoi ''24'' = (24, None)"
    "Atoi ''00'' = (0, None)" "Atoi ''01'' = (1, None)"
    by (simp_all add: Atoi_def is_digit_def)
  have gen: "ParseMinutesSinceMidnight v1 v2 =
    (if \<not> parses_in v1 0 24 then (0, Some ''invalid hours value'')
     else if \<not> parses_in v2 0 59 then (0, Some ''invalid minutes value'')
     else if fst (Atoi v1) = 24 \<and> fst (Atoi v2) \<noteq> 0 then (0, Some ''invalid value'')
     else (fst (Atoi v1) * 60 + fst (Atoi v2), None))"
    by (cases "Atoi v1"; cases "Atoi v2")
       (auto simp: ParseMinutesSinceMidnight_def parses_in_def)
  have e1: "ParseMinutesSinceMidnight ''25'' ''00'' = (0, Some ''invalid hours value'')"
    by (simp add: ParseMinutesSinceMidnight_def ex)
  have e2: "ParseMinutesSinceMidnight ''24'' ''01'' = (0, Some ''invalid value'')"
    by (simp add: ParseMinutesSinceMidnight_def ex)
  have e3: "ParseMinutesSinceMidnight ''24'' ''00'' = (1440, None)"
    by (simp add: ParseMinutesSinceMidnight_def ex)
  show ?thesis
    unfolding gen using e1 e2 e3 by (simp add: gen)
qed

theorem ParseMinutesSinceMidnight_cases_witness:
  "parses_in ''08'' 0 24 \<and> parses_in ''30'' 0 59
   \<and> ParseMinutesSinceMidnight ''08'' ''30'' = (510, None)
   \<and> \<not> parses_in ''aa'' 0 24
   \<and> ParseMinutesSinceMidnight ''aa'' ''00'' = (0, Some ''invalid hours value'')
   \<and> parses_in ''12'' 0 24 \<and> \<not> parses_in ''60'' 0 59
   \<and> ParseMinutesSinceMidnight ''12'' ''60'' = (0, Some ''invalid minutes value'')
   \<and> parses_in ''24'' 0 24 \<and> parses_in ''01'' 0 59
   \<and> ParseMinutesSinceMidnight ''24'' ''01'' = (0, Some ''invalid value'')"
proof -
  have ex: "Atoi ''08'' = (8, None)" "Atoi ''30'' = (30, None)" "Atoi ''aa'' = (0, Some ErrSyntax)"
    "Atoi ''00'' = (0, None)" "Atoi ''12'' = (12, None)" "Atoi ''60'' = (60, None)"
    "Atoi ''24'' = (24, None)" "Atoi ''01'' = (1, None)"
    by (simp_all add: Atoi_def is_digit_def)
  have p: "parses_in ''08'' 0 24" "parses_in ''30'' 0 59" "\<not> parses_in ''aa'' 0 24"
    "parses_in ''12'' 0 24" "\<not> parses_in ''60'' 0 59" "parses_in ''24'' 0 24"
    "parses_in ''01'' 0 59"
    by (simp_all add: parses_in_def ex)
  have a: "ParseMinutesSinceMidnight ''08'' ''30'' = (510, None)"
    using ParseMinutesSinceMidnight_cases [of "''08''" "''30''"] p
    by (cases "ParseMinutesSinceMidnight ''08'' ''30''") (simp add: ex)
  have b: "ParseMinutesSinceMidnight ''aa'' ''00'' = (0, Some ''invalid hours value'')"
    using ParseMinutesSinceMidnight_cases [of "''aa''" "''00''"] p by blast
  have c: "ParseMinutesSinceMidnight ''12'' ''60'' = (0, Some ''invalid minutes value'')"
    using ParseMinutesSinceMidnight_cases [of "''12''" "''60''"] p by blast
  have d: "ParseMinutesSinceMidnight ''24'' ''01'' = (0, Some ''invalid value'')"
    using ParseMinutesSinceMidnight_cases [of "''24''" "''01''"] p by blast
  show ?thesis using p a b c d by simp
qed

text \<open>
  C1. For every sequence of intervals within the data-model invariants (weekday in 1..7,
  minutes in 0..1440, either endpoint possibly absent), parsing the formatted text gives
  the sequence back with no error; and for every text that the formatter produced from such
  a sequence, parsing succeeds and formatting the result reproduces the text.
\<close>

theorem ParseOpeningHours_roundtrip:
  "((\<forall>oh \<in> set ohs. valid_interval oh) \<longrightarrow>
      ParseOpeningHours (OpeningHoursSliceToString ohs) = (Some ohs, None))
   \<and> (\<forall>s. (\<exists>x. (\<forall>oh \<in> set x. valid_interval oh) \<and> s = OpeningHoursSliceToString x) \<longrightarrow>
         (\<exists>ys. ParseOpeningHours s = (Some ys, None) \<and> OpeningHoursSliceToString ys = s))"
  using Parse_Format by blast

theorem ParseOpeningHours_roundtrip_witness:
  "valid_interval \<lparr>Open = Some \<lparr>Weekday = 1, MinutesSinceMidnight = 480\<rparr>,
                   Close = Some \<lparr>Weekday = 1, MinutesSinceMidnight = 960\<rparr>\<rparr>
   \<and> valid_interval \<lparr>Open = None, Close = Some \<lparr>Weekday = 7, MinutesSinceMidnight = 1440\<rparr>\<rparr>
   \<and> OpeningHoursSliceToString
        [\<lparr>Open = Some \<lparr>Weekday = 1, MinutesSinceMidnight = 480\<rparr>,
          Close = Some \<lparr>Weekday = 1, MinutesSinceMidnight = 960\<rparr>\<rparr>,
         \<lparr>Open = None, Close = Some \<lparr>Weekday = 7, MinutesSinceMidnight = 1440\<rparr>\<rparr>]
       = ''W1T08:00:00/W1T16:00:00,/W7T24:00:00''
   \<and> ParseOpeningHours ''W1T08:00:00/W1T16:00:00,/W7T24:00:00''
       = (Some [\<lparr>Open = Some \<lparr>Weekday = 1, MinutesSinceMidnight = 480\<rparr>,
                 Close = Some \<lparr>Weekday = 1, MinutesSinceMidnight = 960\<rparr>\<rparr>,
                \<lparr>Open = None, Close = Some \<lparr>Weekday = 7, MinutesSinceMidnight = 1440\<rparr>\<rparr>], None)"
proof -
  let ?x = "[\<lparr>Open = Some \<lparr>Weekday = 1, MinutesSinceMidnight = 480\<rparr>,
              Close = Some \<lparr>Weekday = 1, MinutesSinceMidnight = 960\<rparr>\<rparr>,
             \<lparr>Open = None, Close = Some \<lparr>Weekday = 7, MinutesSinceMidnight = 1440\<rparr>\<rparr>]"
  have v: "\<forall>oh \<in> set ?x. valid_interval oh"
    by (simp add: valid_interval_def valid_time_def)
  have f: "OpeningHoursSliceToString ?x = ''W1T08:00:00/W1T16:00:00,/W7T24:00:00''"
    by (simp add: OpeningHoursSliceToString_def OpeningHours_String_def fmtTimeInWeek_def
        fmt_d_def fmt_02d_def go_quo_def go_rem_def dec_nat.simps digit_char_simps)
  from ParseOpeningHours_roundtrip [of ?x] v
  have "ParseOpeningHours (OpeningHoursSliceToString ?x) = (Some ?x, None)" by blast
  with v f show ?thesis by simp
qed











text \<open>
  C10. For an interval with both endpoints present whose two weekdays, after the treatment
  of a closing time at midnight, are in 1..7, the loop body of the day expansion and the
  loop body of the OCPI projection both return, having emitted at most 7 entries; and
  from every weekday in 1..7 fewer than 7 steps of \<open>setNextDay\<close> reach every weekday in
  1..7.
\<close>

theorem weekday_walk_terminates:
  "(Open oh = Some po \<and> Close oh = Some pc
      \<and> weekday_ok (Weekday (closeAtMidnight pc \<sigma> po))
      \<and> weekday_ok (Weekday (closeAtMidnight pc \<sigma> pc)) \<longrightarrow>
    (\<exists>es \<sigma>'. expandInterval oh ts \<sigma> = Some (Inr (emit ts es, \<sigma>')) \<and> length es \<le> 7))
   \<and> (Open oh = Some po \<and> Close oh = Some pc
      \<and> weekday_ok (Weekday (ocpiMidnight pc \<sigma> po))
      \<and> weekday_ok (Weekday (ocpiMidnight pc \<sigma> pc)) \<longrightarrow>
    (\<exists>es \<sigma>'. ocpiInterval oh rh \<sigma> = Some (Inr (rh @ es, \<sigma>')) \<and> length es \<le> 7))
   \<and> (weekday_ok w \<and> weekday_ok cw \<longrightarrow> (\<exists>k<7. (setNextDay ^^ k) w = cw))"
proof (intro conjI impI)
  assume a: "Open oh = Some po \<and> Close oh = Some pc
      \<and> weekday_ok (Weekday (closeAtMidnight pc \<sigma> po))
      \<and> weekday_ok (Weekday (closeAtMidnight pc \<sigma> pc))"
  let ?\<sigma> = "closeAtMidnight pc \<sigma>"
  from a have "expandInterval oh ts \<sigma> =
     Some (Inr (emit ts (spec_day_ranges (?\<sigma> po) (?\<sigma> pc)), ?\<sigma>(po := (?\<sigma> po)\<lparr>Weekday := Weekday (?\<sigma> pc)\<rparr>)))"
    using expandInterval_returns [of oh po pc ?\<sigma> \<sigma> ts] by blast
  moreover from a have "length (spec_day_ranges (?\<sigma> po) (?\<sigma> pc)) \<le> 7"
    using length_day_ranges by blast
  ultimately show "\<exists>es \<sigma>'. expandInterval oh ts \<sigma> = Some (Inr (emit ts es, \<sigma>')) \<and> length es \<le> 7"
    by blast
next
  assume a: "Open oh = Some po \<and> Close oh = Some pc
      \<and> weekday_ok (Weekday (ocpiMidnight pc \<sigma> po))
      \<and> weekday_ok (Weekday (ocpiMidnight pc \<sigma> pc))"
  let ?\<sigma> = "ocpiMidnight pc \<sigma>"
  from a have "ocpiInterval oh rh \<sigma> =
     Some (Inr (rh @ spec_ocpi_ranges (?\<sigma> po) (?\<sigma> pc), ?\<sigma>(po := (?\<sigma> po)\<lparr>Weekday := Weekday (?\<sigma> pc)\<rparr>)))"
    using ocpiInterval_returns [of oh po pc ?\<sigma> \<sigma> rh] by blast
  moreover from a have "length (spec_ocpi_ranges (?\<sigma> po) (?\<sigma> pc)) \<le> 7"
    using length_ocpi_ranges by blast
  ultimately show "\<exists>es \<sigma>'. ocpiInterval oh rh \<sigma> = Some (Inr (rh @ es, \<sigma>')) \<and> length es \<le> 7"
    by blast
next
  assume "weekday_ok w \<and> weekday_ok cw"
  then show "\<exists>k<7. (setNextDay ^^ k) w = cw"
    using setNextDay_reaches by blast
qed

theorem weekday_walk_terminates_witness:
  "weekday_ok 7 \<and> weekday_ok 6
   \<and> closeAtMidnight 1 (store_of [\<lparr>Weekday = 7, MinutesSinceMidnight = 0\<rparr>,
                                   \<lparr>Weekday = 6, MinutesSinceMidnight = 60\<rparr>]) 0
       = \<lparr>Weekday = 7, MinutesSinceMidnight = 0\<rparr>
   \<and> closeAtMidnight 1 (store_of [\<lparr>Weekday = 7, MinutesSinceMidnight = 0\<rparr>,
                                   \<lparr>Weekday = 6, MinutesSinceMidnight = 60\<rparr>]) 1
       = \<lparr>Weekday = 6, MinutesSinceMidnight = 60\<rparr>
   \<and> (\<exists>es \<sigma>'. expandInterval \<lparr>Open = Some 0, Close = Some 1\<rparr> Map.empty
                 (store_of [\<lparr>Weekday = 7, MinutesSinceMidnight = 0\<rparr>,
                            \<lparr>Weekday = 6, MinutesSinceMidnight = 60\<rparr>])
               = Some (Inr (emit Map.empty es, \<sigma>')) \<and> length es \<le> 7)
   \<and> ocpiMidnight 1 (store_of [\<lparr>Weekday = 7, MinutesSinceMidnight = 0\<rparr>,
                                \<lparr>Weekday = 6, MinutesSinceMidnight = 60\<rparr>]) 0
       = \<lparr>Weekday = 7, MinutesSinceMidnight = 0\<rparr>
   \<and> ocpiMidnight 1 (store_of [\<lparr>Weekday = 7, MinutesSinceMidnight = 0\<rparr>,
                                \<lparr>Weekday = 6, MinutesSinceMidnight = 60\<rparr>]) 1
       = \<lparr>Weekday = 6, MinutesSinceMidnight = 60\<rparr>
   \<and> (\<exists>es \<sigma>'. ocpiInterval \<lparr>Open = Some 0, Close = Some 1\<rparr> []
                 (store_of [\<lparr>Weekday = 7, MinutesSinceMidnight = 0\<rparr>,
                            \<lparr>Weekday = 6, MinutesSinceMidnight = 60\<rparr>])
               = Some (Inr ([] @ es, \<sigma>')) \<and> length es \<le> 7)
   \<and> (\<exists>k<7. (setNextDay ^^ k) 7 = 6)"
proof -
  let ?\<sigma> = "store_of [\<lparr>Weekday = 7, MinutesSinceMidnight = 0\<rparr>,
                       \<lparr>Weekday = 6, MinutesSinceMidnight = 60\<rparr>]"
  let ?oh = "\<lparr>Open = Some (0::nat), Close = Some (1::nat)\<rparr>"
  have c: "closeAtMidnight 1 ?\<sigma> 0 = \<lparr>Weekday = 7, MinutesSinceMidnight = 0\<rparr>"
    "closeAtMidnight 1 ?\<sigma> 1 = \<lparr>Weekday = 6, MinutesSinceMidnight = 60\<rparr>"
    "ocpiMidnight 1 ?\<sigma> 0 = \<lparr>Weekday = 7, MinutesSinceMidnight = 0\<rparr>"
    "ocpiMidnight 1 ?\<sigma> 1 = \<lparr>Weekday = 6, MinutesSinceMidnight = 60\<rparr>"
    by (simp_all add: eval_defs)
  have ok: "weekday_ok 7" "weekday_ok 6" by (simp_all add: weekday_ok_def)
  note t = weekday_walk_terminates [of ?oh 0 1 ?\<sigma> Map.empty "[]" 7 6]
  have 1: "\<exists>es \<sigma>'. expandInterval ?oh Map.empty ?\<sigma> = Some (Inr (emit Map.empty es, \<sigma>')) \<and> length es \<le> 7"
    using t c ok by simp
  have 2: "\<exists>es \<sigma>'. ocpiInterval ?oh [] ?\<sigma> = Some (Inr ([] @ es, \<sigma>')) \<and> length es \<le> 7"
    using t c ok by simp
  have 3: "\<exists>k<7. (setNextDay ^^ k) 7 = 6"
    using t ok by simp
  show ?thesis using c ok 1 2 3 by blast
qed



text \<open>
  C3 (the code writes to its input). \<^verbatim>\<open>GetHumanReadableTimes\<close> on the one interval
  open = (1, 480), close = (2, 960) returns monday and tuesday and leaves the caller's open
  endpoint at weekday 2. \<^verbatim>\<open>GetOCPIOpeningTimes\<close> on the one interval open = (1, 480),
  close = (1, 1440) returns one entry and leaves the caller's close endpoint at 0 minutes;
  called again on the same slice it returns seven entries.
\<close>

theorem expansion_writes_input:
  "(\<exists>ts \<sigma>'. GetHumanReadableTimes [\<lparr>Open = Some 0, Close = Some 1\<rparr>]
               (store_of [\<lparr>Weekday = 1, MinutesSinceMidnight = 480\<rparr>,
                          \<lparr>Weekday = 2, MinutesSinceMidnight = 960\<rparr>])
             = Some (Inr (ts, \<sigma>'))
        \<and> ts = Some [''monday'' \<mapsto> [\<lparr>TimeRange_Open = ''08:00'', TimeRange_Close = ''24:00''\<rparr>],
                      ''tuesday'' \<mapsto> [\<lparr>TimeRange_Open = ''00:00'', TimeRange_Close = ''16:00''\<rparr>]]
        \<and> \<sigma>' 0 = \<lparr>Weekday = 2, MinutesSinceMidnight = 480\<rparr>
        \<and> \<sigma>' 1 = \<lparr>Weekday = 2, MinutesSinceMidnight = 960\<rparr>)
   \<and> (\<exists>r1 \<sigma>1 r2 \<sigma>2.
        GetOCPIOpeningTimes [\<lparr>Open = Some 0, Close = Some 1\<rparr>]
          (store_of [\<lparr>Weekday = 1, MinutesSinceMidnight = 480\<rparr>,
                     \<lparr>Weekday = 1, MinutesSinceMidnight = 1440\<rparr>])
          = Some (Inr (r1, \<sigma>1))
        \<and> RegularHours r1 = Some [\<lparr>OCPI_Weekday = 1, PeriodBegin = ''08:00'', PeriodEnd = ''00:00''\<rparr>]
        \<and> \<sigma>1 0 = \<lparr>Weekday = 1, MinutesSinceMidnight = 480\<rparr>
        \<and> \<sigma>1 1 = \<lparr>Weekday = 1, MinutesSinceMidnight = 0\<rparr>
        \<and> GetOCPIOpeningTimes [\<lparr>Open = Some 0, Close = Some 1\<rparr>] \<sigma>1 = Some (Inr (r2, \<sigma>2))
        \<and> RegularHours r2 =
            Some [\<lparr>OCPI_Weekday = 1, PeriodBegin = ''08:00'', PeriodEnd = ''00:00''\<rparr>,
                  \<lparr>OCPI_Weekday = 2, PeriodBegin = ''00:00'', PeriodEnd = ''00:00''\<rparr>,
                  \<lparr>OCPI_Weekday = 3, PeriodBegin = ''00:00'', PeriodEnd = ''00:00''\<rparr>,
                  \<lparr>OCPI_Weekday = 4, PeriodBegin = ''00:00'', PeriodEnd = ''00:00''\<rparr>,
                  \<lparr>OCPI_Weekday = 5, PeriodBegin = ''00:00'', PeriodEnd = ''00:00''\<rparr>,
                  \<lparr>OCPI_Weekday = 6, PeriodBegin = ''00:00'', PeriodEnd = ''00:00''\<rparr>,
                  \<lparr>OCPI_Weekday = 7, PeriodBegin = ''00:00'', PeriodEnd = ''00:00''\<rparr>]
        \<and> \<sigma>2 0 = \<lparr>Weekday = 7, MinutesSinceMidnight = 480\<rparr>
        \<and> \<sigma>2 1 = \<lparr>Weekday = 7, MinutesSinceMidnight = 0\<rparr>)"
  by (simp add: eval_defs fullDays.simps ocpiFullDays.simps)

text \<open>
  C4 (an absent endpoint). For the one interval with both endpoints absent, the result of
  parsing \<^verbatim>\<open>/\<close>, the 24/7 test is false and \<^verbatim>\<open>GetOCPIOpeningTimes\<close> then reads the closing
  time through the \<^verbatim>\<open>nil\<close> pointer: it panics and returns no flag. So it does whenever the
  first interval has no closing time.
\<close>

theorem GetOCPIOpeningTimes_absent_endpoint:
  "isTwentyFourSeven [\<lparr>Open = None, Close = None\<rparr>] \<sigma> = False
   \<and> GetOCPIOpeningTimes [\<lparr>Open = None, Close = None\<rparr>] \<sigma> = Some (Inl NilPointerDereference)
   \<and> GetOCPIOpeningTimes (\<lparr>Open = po, Close = None\<rparr> # ohs) \<sigma> = Some (Inl NilPointerDereference)"
  by (simp add: GetOCPIOpeningTimes_def isTwentyFourSeven_def ocpiInterval_def split: option.splits)

end
